theory Spec2Isabelle
  imports Complex_Main "HOL-Library.Sublist" "HOL-Library.Multiset"
begin

section \<open>JavaScript numbers\<close>

text \<open>
  A TypeScript \<open>number\<close> is modelled by its finite values, idealised as reals (rounding
  and overflow are not modelled, and \<open>-0\<close> is identified with \<open>0\<close>), together with the
  three special values. \<open>NaN\<close> has to be a value of the model: the guards of the forms
  compare the result of \<open>parseFloat\<close> with \<open>0\<close>, and every comparison with \<open>NaN\<close> is
  false.
\<close>

datatype number = NaN | NegInf | Num real | PosInf

fun jsneg :: "number \<Rightarrow> number" where
  "jsneg NaN = NaN"
| "jsneg NegInf = PosInf"
| "jsneg PosInf = NegInf"
| "jsneg (Num a) = Num (- a)"

text \<open>\<open>a + b\<close>\<close>

fun jsadd :: "number \<Rightarrow> number \<Rightarrow> number" where
  "jsadd NaN _ = NaN"
| "jsadd _ NaN = NaN"
| "jsadd PosInf NegInf = NaN"
| "jsadd NegInf PosInf = NaN"
| "jsadd PosInf _ = PosInf"
| "jsadd _ PosInf = PosInf"
| "jsadd NegInf _ = NegInf"
| "jsadd _ NegInf = NegInf"
| "jsadd (Num a) (Num b) = Num (a + b)"

text \<open>\<open>a - b\<close>\<close>

definition jssub :: "number \<Rightarrow> number \<Rightarrow> number" where
  "jssub a b = jsadd a (jsneg b)"

text \<open>\<open>a <= b\<close> and \<open>a < b\<close>; \<open>a >= b\<close> is \<open>b <= a\<close> and \<open>a > b\<close> is \<open>b < a\<close>.\<close>

fun jsle :: "number \<Rightarrow> number \<Rightarrow> bool" where
  "jsle NaN _ = False"
| "jsle _ NaN = False"
| "jsle NegInf _ = True"
| "jsle _ PosInf = True"
| "jsle (Num a) (Num b) = (a \<le> b)"
| "jsle _ _ = False"

fun jslt :: "number \<Rightarrow> number \<Rightarrow> bool" where
  "jslt NaN _ = False"
| "jslt _ NaN = False"
| "jslt PosInf _ = False"
| "jslt _ NegInf = False"
| "jslt (Num a) (Num b) = (a < b)"
| "jslt _ _ = True"


text \<open>\<open>Math.min(a, b)\<close>: \<open>NaN\<close> as soon as one argument is.\<close>

fun mathMin :: "number \<Rightarrow> number \<Rightarrow> number" where
  "mathMin NaN _ = NaN"
| "mathMin _ NaN = NaN"
| "mathMin a b = (if jsle a b then a else b)"






section \<open>Transactions\<close>

text \<open>
  \<^verbatim>\<open>
  export interface Transaction {
    id: string; title: string; amount: number; category: string;
    type: 'income' | 'expense'; date: string;
  }
  \<close>
  Every field carries the prefix \<open>tx\<close>: a savings goal has fields of the same names, and
  \<open>id\<close> is the identity function of HOL. The amount of a transaction is a real: the form
  that creates transactions rejects an amount for which \<open>isNaN(parseFloat(amount))\<close> holds,
  so that the amounts of the store are numbers proper, and they are taken to be finite.
\<close>

datatype transactionType = Income | Expense

record transaction =
  txId :: string
  txTitle :: string
  txAmount :: real
  txCategory :: string
  txType :: transactionType
  txDate :: string

text \<open>
  \<^verbatim>\<open>
  const addTransaction = (tx: Transaction) => {
    setTransactions(prev => [tx, ...prev]);
  };
  const deleteTransaction = (id: string) => {
    setTransactions(prev => prev.filter(tx => tx.id !== id));
  };
  \<close>
\<close>

definition addTransaction :: "transaction \<Rightarrow> transaction list \<Rightarrow> transaction list" where
  "addTransaction tx prev = tx # prev"

definition deleteTransaction :: "string \<Rightarrow> transaction list \<Rightarrow> transaction list" where
  "deleteTransaction i prev = filter (\<lambda>tx. txId tx \<noteq> i) prev"

section \<open>Strings\<close>

text \<open>
  \<open>s.toLowerCase()\<close> on a string of ASCII characters: the letters \<open>A\<close> to \<open>Z\<close> (codes 65 to
  90) move to \<open>a\<close> to \<open>z\<close>, every other character stays. (A \<open>string\<close> of HOL is a list of
  bytes; the case mapping of characters outside ASCII is not modelled.)
\<close>

definition lowerChar :: "char \<Rightarrow> char" where
  "lowerChar c =
     (if 65 \<le> (of_char c :: nat) \<and> (of_char c :: nat) \<le> 90
      then char_of ((of_char c :: nat) + 32) else c)"

definition toLowerCase :: "string \<Rightarrow> string" where
  "toLowerCase s = map lowerChar s"

text \<open>
  \<open>s.includes(q)\<close>: \<open>q\<close> occurs in \<open>s\<close>, at the first position or at a later one. (The
  name \<open>includes\<close> is a keyword of Isabelle.)
\<close>

fun stringIncludes :: "string \<Rightarrow> string \<Rightarrow> bool" where
  "stringIncludes [] q = (q = [])"
| "stringIncludes (c # s) q = (prefix q (c # s) \<or> stringIncludes s q)"

section \<open>Arrays\<close>

text \<open>
  The screen of the transactions reads the array that the provider holds in its state, and
  \<open>Array.prototype.sort\<close> sorts an array in place, so arrays are modelled in a heap: an
  array is an address, \<open>cells\<close> gives the elements of the array at an address, and \<open>fresh\<close> is
  the next address that is free.
\<close>

record heap =
  cells :: "nat \<Rightarrow> transaction list"
  fresh :: nat

text \<open>\<open>array.filter(p)\<close> reads the array and returns a new array.\<close>

definition arrayFilter :: "(transaction \<Rightarrow> bool) \<Rightarrow> nat \<Rightarrow> heap \<Rightarrow> nat \<times> heap" where
  "arrayFilter p array h =
     (fresh h, h\<lparr>cells := (cells h)(fresh h := filter p (cells h array)), fresh := Suc (fresh h)\<rparr>)"

text \<open>
  \<open>array.sort(compareFn)\<close>. The language asks for a stable sort, and takes a result \<open>NaN\<close> of
  the comparison for \<open>0\<close>; \<open>a\<close> stays before \<open>b\<close> unless \<open>compareFn(a, b) > 0\<close>. With a
  comparison that is a consistent order this fixes the result; the model is the insertion
  sort that inserts the elements from the last one to the first one.
\<close>

definition sortCompare :: "('a \<Rightarrow> 'a \<Rightarrow> number) \<Rightarrow> 'a \<Rightarrow> 'a \<Rightarrow> number" where
  "sortCompare compareFn a b = (case compareFn a b of NaN \<Rightarrow> Num 0 | v \<Rightarrow> v)"

fun insertSorted :: "('a \<Rightarrow> 'a \<Rightarrow> number) \<Rightarrow> 'a \<Rightarrow> 'a list \<Rightarrow> 'a list" where
  "insertSorted compareFn a [] = [a]"
| "insertSorted compareFn a (b # bs) =
     (if jslt (Num 0) (sortCompare compareFn a b) then b # insertSorted compareFn a bs
      else a # b # bs)"

definition sortBy :: "('a \<Rightarrow> 'a \<Rightarrow> number) \<Rightarrow> 'a list \<Rightarrow> 'a list" where
  "sortBy compareFn xs = foldr (insertSorted compareFn) xs []"

text \<open>The array at the address is sorted where it is: no array is created.\<close>

definition arraySort :: "(transaction \<Rightarrow> transaction \<Rightarrow> number) \<Rightarrow> nat \<Rightarrow> heap \<Rightarrow> heap" where
  "arraySort compareFn array h =
     h\<lparr>cells := (cells h)(array := sortBy compareFn (cells h array))\<rparr>"

section \<open>The list that the screen shows\<close>

text \<open>
  \<^verbatim>\<open>
  type FilterType = 'all' | 'income' | 'expense';
  type SortType = 'newest' | 'oldest' | 'highest' | 'lowest';
  \<close>
\<close>

datatype filterType = AllTypes | OnlyIncome | OnlyExpense

datatype sortType = Newest | Oldest | Highest | Lowest

text \<open>\<open>t.type === filterType\<close>\<close>

fun sameType :: "transactionType \<Rightarrow> filterType \<Rightarrow> bool" where
  "sameType Income OnlyIncome = True"
| "sameType Expense OnlyExpense = True"
| "sameType _ _ = False"

text \<open>
  \<^verbatim>\<open>
  filtered.sort((a, b) => {
    switch (sortType) {
      case 'newest': return new Date(b.date).getTime() - new Date(a.date).getTime();
      case 'oldest': return new Date(a.date).getTime() - new Date(b.date).getTime();
      case 'highest': return b.amount - a.amount;
      case 'lowest': return a.amount - b.amount;
      default: return 0;
    }
  });
  \<close>
  \<open>getTime s\<close> stands for \<open>new Date(s).getTime()\<close>, a parameter; the \<open>default\<close> branch has no
  value of \<open>SortType\<close>.
\<close>

fun compareFn :: "(string \<Rightarrow> number) \<Rightarrow> sortType \<Rightarrow> transaction \<Rightarrow> transaction \<Rightarrow> number" where
  "compareFn getTime Newest a b = jssub (getTime (txDate b)) (getTime (txDate a))"
| "compareFn getTime Oldest a b = jssub (getTime (txDate a)) (getTime (txDate b))"
| "compareFn getTime Highest a b = Num (txAmount b - txAmount a)"
| "compareFn getTime Lowest a b = Num (txAmount a - txAmount b)"

text \<open>
  \<^verbatim>\<open>
  const processedTransactions = useMemo(() => {
    let filtered = transactions;
    if (searchQuery) {
      filtered = filtered.filter(t =>
        t.title.toLowerCase().includes(searchQuery.toLowerCase()) ||
        t.category.toLowerCase().includes(searchQuery.toLowerCase()));
    }
    if (filterType !== 'all') {
      filtered = filtered.filter(t => t.type === filterType);
    }
    filtered.sort((a, b) => { ... });
    return filtered;
  }, [transactions, searchQuery, filterType, sortType]);
  \<close>
  \<open>transactions\<close> is the address of the array in the state of the provider. The result is
  the address of the array that the screen shows, with the heap after the call.
\<close>

definition matchesSearch :: "string \<Rightarrow> transaction \<Rightarrow> bool" where
  "matchesSearch searchQuery t \<longleftrightarrow>
     stringIncludes (toLowerCase (txTitle t)) (toLowerCase searchQuery) \<or>
     stringIncludes (toLowerCase (txCategory t)) (toLowerCase searchQuery)"

definition processedTransactions ::
  "(string \<Rightarrow> number) \<Rightarrow> string \<Rightarrow> filterType \<Rightarrow> sortType \<Rightarrow> nat \<Rightarrow> heap \<Rightarrow> nat \<times> heap" where
  "processedTransactions getTime searchQuery ft st transactions h =
     (let (filtered, h) =
            (if searchQuery \<noteq> [] then arrayFilter (matchesSearch searchQuery) transactions h
             else (transactions, h));
          (filtered, h) =
            (if ft \<noteq> AllTypes then arrayFilter (\<lambda>t. sameType (txType t) ft) filtered h
             else (filtered, h))
      in (filtered, arraySort (compareFn getTime st) filtered h))"




definition timeOf :: "(string \<Rightarrow> number) \<Rightarrow> transaction \<Rightarrow> real" where
  "timeOf getTime t = (case getTime (txDate t) of Num ms \<Rightarrow> ms | _ \<Rightarrow> 0)"

text \<open>The key of a sort: a greater key comes later.\<close>

fun sortKey :: "(string \<Rightarrow> number) \<Rightarrow> sortType \<Rightarrow> transaction \<Rightarrow> real" where
  "sortKey getTime Newest t = - timeOf getTime t"
| "sortKey getTime Oldest t = timeOf getTime t"
| "sortKey getTime Highest t = - txAmount t"
| "sortKey getTime Lowest t = txAmount t"

definition sortStage :: "(string \<Rightarrow> number) \<Rightarrow> sortType \<Rightarrow> transaction list \<Rightarrow> transaction list" where
  "sortStage getTime st txs = sort_key (sortKey getTime st) txs"


section \<open>Analytics\<close>

text \<open>
  \<^verbatim>\<open>
  const analytics = useMemo(() => {
    const totalIncome = transactions
      .filter(t => t.type === 'income')
      .reduce((sum, t) => sum + t.amount, 0);
    const totalExpense = transactions
      .filter(t => t.type === 'expense')
      .reduce((sum, t) => sum + t.amount, 0);
    const balance = totalIncome - totalExpense;
    const categoryStats = transactions.reduce((acc, t) => {
      if (!acc[t.category]) {
        acc[t.category] = { income: 0, expense: 0 };
      }
      acc[t.category][t.type] += t.amount;
      return acc;
    }, {} as Record<string, { income: number; expense: number }>);
    return { totalIncome, totalExpense, balance,
             transactionCount: transactions.length, categoryStats };
  }, [transactions]);
  \<close>
  \<open>filter\<close> and \<open>reduce\<close> write to no array that exists, so \<open>analytics\<close> is a function of the
  elements of the array.

  The accumulator \<open>acc\<close> starts as the object \<open>{}\<close>. Reading \<open>acc[k]\<close> gives the property
  \<open>k\<close> of the object itself if it has one, and otherwise what every object inherits under
  that name from \<open>Object.prototype\<close>, if anything: a function, or for \<open>__proto__\<close> the
  prototype itself, all of them truthy. \<open>categoryStats\<close> holds the properties of the object
  itself.
\<close>

record categoryStat =
  income :: real
  expense :: real

record analyticsData =
  totalIncome :: real
  totalExpense :: real
  balance :: real
  transactionCount :: nat
  categoryStats :: "string \<rightharpoonup> categoryStat"

definition objectPrototype :: "string list" where
  "objectPrototype =
     [''constructor'', ''hasOwnProperty'', ''isPrototypeOf'', ''propertyIsEnumerable'',
      ''toLocaleString'', ''toString'', ''valueOf'', ''__proto__'', ''__defineGetter__'',
      ''__defineSetter__'', ''__lookupGetter__'', ''__lookupSetter__'']"

datatype 'a property = Undefined | Own 'a | Inherited

definition getProperty :: "(string \<rightharpoonup> 'a) \<Rightarrow> string \<Rightarrow> 'a property" where
  "getProperty obj k =
     (case obj k of
        Some v \<Rightarrow> Own v
      | None \<Rightarrow> if k \<in> set objectPrototype then Inherited else Undefined)"

text \<open>\<open>stat[t.type] += t.amount\<close>\<close>

definition addAmount :: "transactionType \<Rightarrow> real \<Rightarrow> categoryStat \<Rightarrow> categoryStat" where
  "addAmount ty a stat =
     (case ty of Income \<Rightarrow> stat\<lparr>income := income stat + a\<rparr>
               | Expense \<Rightarrow> stat\<lparr>expense := expense stat + a\<rparr>)"

text \<open>
  The function that \<open>reduce\<close> folds over the transactions. \<open>!acc[t.category]\<close> holds when the
  property is undefined. When \<open>acc[t.category]\<close> is inherited, the assignment
  \<open>acc[t.category][t.type] += t.amount\<close> writes a property of the inherited object, which all
  objects share, and \<open>acc\<close> keeps the properties it has.
\<close>

definition categoryStep :: "(string \<rightharpoonup> categoryStat) \<Rightarrow> transaction \<Rightarrow> (string \<rightharpoonup> categoryStat)" where
  "categoryStep acc t =
     (let acc = (if getProperty acc (txCategory t) = Undefined
                 then acc(txCategory t \<mapsto> \<lparr>income = 0, expense = 0\<rparr>) else acc)
      in case getProperty acc (txCategory t) of
           Own stat \<Rightarrow> acc(txCategory t \<mapsto> addAmount (txType t) (txAmount t) stat)
         | Inherited \<Rightarrow> acc
         | Undefined \<Rightarrow> acc)"

definition analytics :: "transaction list \<Rightarrow> analyticsData" where
  "analytics transactions =
     (let totalIncome =
            foldl (\<lambda>sum t. sum + txAmount t) 0 (filter (\<lambda>t. txType t = Income) transactions);
          totalExpense =
            foldl (\<lambda>sum t. sum + txAmount t) 0 (filter (\<lambda>t. txType t = Expense) transactions);
          balance = totalIncome - totalExpense;
          categoryStats = foldl categoryStep Map.empty transactions
      in \<lparr>totalIncome = totalIncome, totalExpense = totalExpense, balance = balance,
          transactionCount = length transactions, categoryStats = categoryStats\<rparr>)"

text \<open>
  The sums of a category as the specification words them: the amounts of the income
  transactions of the category, and of its expense transactions, over the whole list.
\<close>

definition sumsOf :: "string \<Rightarrow> transaction list \<Rightarrow> categoryStat" where
  "sumsOf c txs =
     \<lparr>income = (\<Sum>t\<leftarrow>filter (\<lambda>t. txCategory t = c \<and> txType t = Income) txs. txAmount t),
      expense = (\<Sum>t\<leftarrow>filter (\<lambda>t. txCategory t = c \<and> txType t = Expense) txs. txAmount t)\<rparr>"

section \<open>The transactions of the examples\<close>

text \<open>
  The two transactions that the specification tests the pipeline on. It leaves their
  categories open, so the category is a parameter.
\<close>

definition coffee :: "string \<Rightarrow> transaction" where
  "coffee c =
     \<lparr>txId = ''1'', txTitle = ''Coffee'', txAmount = 5, txCategory = c, txType = Expense,
      txDate = ''2024-01-02''\<rparr>"

definition salary :: "string \<Rightarrow> transaction" where
  "salary c =
     \<lparr>txId = ''2'', txTitle = ''Salary'', txAmount = 1000, txCategory = c, txType = Income,
      txDate = ''2024-01-01''\<rparr>"

text \<open>
  A reading of dates that knows these two days (midnight, universal time, in
  milliseconds), and a heap whose array 0 holds the two transactions.
\<close>

definition twoDays :: "string \<Rightarrow> number" where
  "twoDays s =
     (if s = ''2024-01-02'' then Num 1704153600000
      else if s = ''2024-01-01'' then Num 1704067200000 else NaN)"

definition twoTransactions :: heap where
  "twoTransactions =
     \<lparr>cells = (\<lambda>array. [])(0 := [coffee ''Food'', salary ''Salary'']), fresh = 1\<rparr>"

section \<open>Savings goals\<close>

text \<open>
  \<^verbatim>\<open>
  export interface SavingsGoal {
    id: string; title: string; targetAmount: number; currentAmount: number;
    deadline: string; category: string;
  }
  \<close>
  The fields \<open>id\<close>, \<open>title\<close> and \<open>category\<close> carry the prefix \<open>goal\<close>.
\<close>

record savingsGoal =
  goalId :: string
  goalTitle :: string
  targetAmount :: number
  currentAmount :: number
  deadline :: string
  goalCategory :: string

text \<open>
  \<^verbatim>\<open>
  const addSavingsGoal = (goal: SavingsGoal) => {
    setSavingsGoals(prev => [goal, ...prev]);
  };
  \<close>
\<close>

definition addSavingsGoal :: "savingsGoal \<Rightarrow> savingsGoal list \<Rightarrow> savingsGoal list" where
  "addSavingsGoal goal prev = goal # prev"

text \<open>
  \<^verbatim>\<open>
  const updateSavingsGoal = (id: string, amount: number) => {
    setSavingsGoals(prev =>
      prev.map(goal =>
        goal.id === id
          ? { ...goal, currentAmount: Math.min(goal.targetAmount, goal.currentAmount + amount) }
          : goal));
  };
  \<close>
  \<open>contributeTo amount goal\<close> is the object \<open>{ ...goal, currentAmount: ... }\<close>.
\<close>

definition contributeTo :: "number \<Rightarrow> savingsGoal \<Rightarrow> savingsGoal" where
  "contributeTo amount goal =
     goal\<lparr>currentAmount := mathMin (targetAmount goal) (jsadd (currentAmount goal) amount)\<rparr>"

definition updateSavingsGoal :: "string \<Rightarrow> number \<Rightarrow> savingsGoal list \<Rightarrow> savingsGoal list" where
  "updateSavingsGoal i amount prev =
     map (\<lambda>goal. if goalId goal = i then contributeTo amount goal else goal) prev"

text \<open>
  The answer of the user to the confirmation dialog of \<open>deleteSavingsGoal\<close>.
\<close>

datatype answer = Cancel | Delete

text \<open>
  \<^verbatim>\<open>
  const deleteSavingsGoal = (id: string) => {
    Alert.alert("Delete Goal", "Are you sure you want to delete this savings goal?",
      [ { text: "Cancel", style: "cancel" },
        { text: "Delete", style: "destructive",
          onPress: () => setSavingsGoals(prev => prev.filter(goal => goal.id !== id)) } ]);
  };
  \<close>
\<close>

fun deleteSavingsGoal :: "string \<Rightarrow> answer \<Rightarrow> savingsGoal list \<Rightarrow> savingsGoal list" where
  "deleteSavingsGoal i Cancel prev = prev"
| "deleteSavingsGoal i Delete prev = filter (\<lambda>goal. goalId goal \<noteq> i) prev"



section \<open>The session: form, provider and storage\<close>

text \<open>
  The state of the form: four text fields.
  \<^verbatim>\<open>
  const [formData, setFormData] = useState({
    title: '', targetAmount: '', deadline: '', category: '' });
  \<close>
\<close>

record goalForm =
  formTitle :: string
  formTargetAmount :: string
  formDeadline :: string
  formCategory :: string

definition emptyForm :: goalForm where
  "emptyForm = \<lparr>formTitle = [], formTargetAmount = [], formDeadline = [], formCategory = []\<rparr>"

text \<open>
  The persistence collaborator \<open>AsyncStorage\<close>: the strings it holds under their keys, and
  whether it is out of order, in which case every call to it is rejected.
\<close>

record asyncStorage =
  items :: "string \<rightharpoonup> string"
  outOfOrder :: bool

text \<open>What a call can throw.\<close>

datatype exn = StorageError | SyntaxError

definition getItem :: "string \<Rightarrow> asyncStorage \<Rightarrow> exn + string option" where
  "getItem key st = (if outOfOrder st then Inl StorageError else Inr (items st key))"


text \<open>
  What a session holds: the state of the provider (\<open>savingsGoals\<close>, initially \<open>[]\<close>, and
  \<open>isLoading\<close>, initially \<open>true\<close>), the text fields of the form, the storage, and the
  dialogs shown so far by \<open>Alert.alert(title, message)\<close>, oldest first.
\<close>

record session =
  savingsGoals :: "savingsGoal list"
  isLoading :: bool
  formData :: goalForm
  storage :: asyncStorage
  alerts :: "(string \<times> string) list"

definition startSession :: "asyncStorage \<Rightarrow> session" where
  "startSession st =
     \<lparr>savingsGoals = [], isLoading = True, formData = emptyForm, storage = st, alerts = []\<rparr>"

definition alert :: "string \<Rightarrow> string \<Rightarrow> session \<Rightarrow> session" where
  "alert heading message s = s\<lparr>alerts := alerts s @ [(heading, message)]\<rparr>"

text \<open>
  \<^verbatim>\<open>
  const handleSubmit = () => {
    if (!formData.title || !formData.targetAmount || !formData.deadline || !formData.category) {
      Alert.alert('Error', 'Please fill in all fields');
      return;
    }
    if (parseFloat(formData.targetAmount) <= 0) {
      Alert.alert('Error', 'Target amount must be greater than 0');
      return;
    }
    addSavingsGoal({
      id: Date.now().toString(),
      title: formData.title,
      targetAmount: parseFloat(formData.targetAmount),
      currentAmount: 0,
      deadline: formData.deadline,
      category: formData.category
    });
    setFormData({ title: '', targetAmount: '', deadline: '', category: '' });
    Alert.alert('Success', 'Savings goal created and saved successfully!');
  };
  \<close>
  \<open>parseFloat\<close> is the function of the language and \<open>now\<close> the string
  \<open>Date.now().toString()\<close>: both are parameters. A string is falsy when it is empty.
\<close>

definition handleSubmit :: "(string \<Rightarrow> number) \<Rightarrow> string \<Rightarrow> session \<Rightarrow> session" where
  "handleSubmit parseFloat now s =
     (if formTitle (formData s) = [] \<or> formTargetAmount (formData s) = [] \<or>
         formDeadline (formData s) = [] \<or> formCategory (formData s) = []
      then alert ''Error'' ''Please fill in all fields'' s
      else if jsle (parseFloat (formTargetAmount (formData s))) (Num 0)
      then alert ''Error'' ''Target amount must be greater than 0'' s
      else alert ''Success'' ''Savings goal created and saved successfully!''
        (s\<lparr>savingsGoals :=
             addSavingsGoal
               \<lparr>goalId = now,
                goalTitle = formTitle (formData s),
                targetAmount = parseFloat (formTargetAmount (formData s)),
                currentAmount = Num 0,
                deadline = formDeadline (formData s),
                goalCategory = formCategory (formData s)\<rparr>
               (savingsGoals s),
           formData := emptyForm\<rparr>))"

text \<open>
  The guard of the form that creates transactions, for comparison:
  \<^verbatim>\<open>
  if (!amount || isNaN(parseFloat(amount)) || parseFloat(amount) <= 0) {
    Alert.alert('Error', 'Please enter a valid amount');
    return;
  }
  \<close>
\<close>

definition rejectsAmount :: "(string \<Rightarrow> number) \<Rightarrow> string \<Rightarrow> bool" where
  "rejectsAmount parseFloat amount \<longleftrightarrow>
     amount = [] \<or> parseFloat amount = NaN \<or> jsle (parseFloat amount) (Num 0)"

text \<open>
  \<^verbatim>\<open>
  const STORAGE_KEY = '@savings_goals';
  \<close>
\<close>

definition STORAGE_KEY :: string where
  "STORAGE_KEY = ''@savings_goals''"

text \<open>
  \<^verbatim>\<open>
  const loadSavingsGoals = async () => {
    try {
      const storedGoals = await AsyncStorage.getItem(STORAGE_KEY);
      if (storedGoals) {
        const parsedGoals = JSON.parse(storedGoals);
        setSavingsGoals(parsedGoals);
      }
    } catch (error) {
      console.error('Error loading savings goals:', error);
      Alert.alert('Error', 'Failed to load savings goals from storage');
    } finally {
      setIsLoading(false);
    }
  };
  \<close>
  \<open>JSON.parse\<close> is a parameter: it throws (\<open>Inl\<close>) or returns the list that the text
  denotes (a text that denotes something else than a list of goals is outside the model).
  The body of the \<open>try\<close> is \<open>loadBody\<close>; the result of \<open>loadSavingsGoals\<close> is in
  \<open>exn + session\<close>, where \<open>Inl\<close> would be an exception that leaves the function. What
  \<open>console.error\<close> prints is not part of the session.
\<close>

definition loadBody :: "(string \<Rightarrow> exn + savingsGoal list) \<Rightarrow> session \<Rightarrow> exn + session" where
  "loadBody jsonParse s =
     (case getItem STORAGE_KEY (storage s) of
        Inl error \<Rightarrow> Inl error
      | Inr storedGoals \<Rightarrow>
          (case storedGoals of
             None \<Rightarrow> Inr s
           | Some payload \<Rightarrow>
               if payload = [] then Inr s
               else (case jsonParse payload of
                       Inl error \<Rightarrow> Inl error
                     | Inr parsedGoals \<Rightarrow> Inr (s\<lparr>savingsGoals := parsedGoals\<rparr>))))"

definition loadSavingsGoals :: "(string \<Rightarrow> exn + savingsGoal list) \<Rightarrow> session \<Rightarrow> exn + session" where
  "loadSavingsGoals jsonParse s =
     (let caught =
            (case loadBody jsonParse s of
               Inl error \<Rightarrow> alert ''Error'' ''Failed to load savings goals from storage'' s
             | Inr s' \<Rightarrow> s')
      in Inr (caught\<lparr>isLoading := False\<rparr>))"


section \<open>Progress of a goal\<close>





section \<open>The savings goal store: contributions\<close>











text \<open>
  C10. A call \<open>updateSavingsGoal id amount\<close> keeps the number of goals and their order; at
  every position the identifier, title, target amount, deadline and category of the goal
  are the ones it had, and a goal with another identifier is unchanged as a whole.
\<close>

theorem updateSavingsGoal_frame:
  "length (updateSavingsGoal i amount goals) = length goals \<and>
   map goalId (updateSavingsGoal i amount goals) = map goalId goals \<and>
   (\<forall>k<length goals.
      goalId (updateSavingsGoal i amount goals ! k) = goalId (goals ! k) \<and>
      goalTitle (updateSavingsGoal i amount goals ! k) = goalTitle (goals ! k) \<and>
      targetAmount (updateSavingsGoal i amount goals ! k) = targetAmount (goals ! k) \<and>
      deadline (updateSavingsGoal i amount goals ! k) = deadline (goals ! k) \<and>
      goalCategory (updateSavingsGoal i amount goals ! k) = goalCategory (goals ! k) \<and>
      (goalId (goals ! k) \<noteq> i \<longrightarrow> updateSavingsGoal i amount goals ! k = goals ! k))"
  by (simp add: updateSavingsGoal_def contributeTo_def)

theorem updateSavingsGoal_frame_witness:
  "updateSavingsGoal ''2'' (Num 40)
     [\<lparr>goalId = ''1'', goalTitle = ''Laptop'', targetAmount = Num 100,
        currentAmount = Num 90, deadline = ''2025-01-01'', goalCategory = ''Tech''\<rparr>,
      \<lparr>goalId = ''2'', goalTitle = ''Trip'', targetAmount = Num 500,
        currentAmount = Num 10, deadline = ''2025-06-01'', goalCategory = ''Vacation''\<rparr>] =
     [\<lparr>goalId = ''1'', goalTitle = ''Laptop'', targetAmount = Num 100,
        currentAmount = Num 90, deadline = ''2025-01-01'', goalCategory = ''Tech''\<rparr>,
      \<lparr>goalId = ''2'', goalTitle = ''Trip'', targetAmount = Num 500,
        currentAmount = Num 50, deadline = ''2025-06-01'', goalCategory = ''Vacation''\<rparr>]"
  using updateSavingsGoal_frame [of "''2''" "Num 40"
     "[\<lparr>goalId = ''1'', goalTitle = ''Laptop'', targetAmount = Num 100,
        currentAmount = Num 90, deadline = ''2025-01-01'', goalCategory = ''Tech''\<rparr>,
      \<lparr>goalId = ''2'', goalTitle = ''Trip'', targetAmount = Num 500,
        currentAmount = Num 10, deadline = ''2025-06-01'', goalCategory = ''Vacation''\<rparr>]"]
  by (simp add: updateSavingsGoal_def contributeTo_def)

section \<open>Deleting, and identifiers that are not in the store\<close>

text \<open>
  C7. Deleting an identifier twice gives the state that deleting it once gives, in the
  transaction store and in the savings goal store; deleting an identifier that no element
  of the store has, or contributing to one, returns the state it was given. The three
  operations are total functions of the state: none of them has a failing branch.
\<close>

theorem delete_idempotent_absent_noop:
  "deleteTransaction i (deleteTransaction i txs) = deleteTransaction i txs \<and>
   deleteSavingsGoal i a (deleteSavingsGoal i a goals) = deleteSavingsGoal i a goals \<and>
   (i \<notin> txId ` set txs \<longrightarrow> deleteTransaction i txs = txs) \<and>
   (i \<notin> goalId ` set goals \<longrightarrow>
      deleteSavingsGoal i a goals = goals \<and> updateSavingsGoal i amount goals = goals)"
proof -
  have "deleteTransaction i txs = txs" if "i \<notin> txId ` set txs"
    using that unfolding deleteTransaction_def by (induction txs) auto
  moreover have "deleteSavingsGoal i a goals = goals" if "i \<notin> goalId ` set goals"
    using that by (cases a; induction goals) auto
  moreover have "updateSavingsGoal i amount goals = goals" if "i \<notin> goalId ` set goals"
    using that unfolding updateSavingsGoal_def by (induction goals) auto
  moreover have "deleteSavingsGoal i a (deleteSavingsGoal i a goals) = deleteSavingsGoal i a goals"
    by (cases a) simp_all
  ultimately show ?thesis
    by (simp add: deleteTransaction_def)
qed

theorem delete_idempotent_absent_noop_witness:
  "''7'' \<notin> txId ` set [\<lparr>txId = ''1'', txTitle = ''Coffee'', txAmount = 5,
       txCategory = ''Food'', txType = Expense, txDate = ''2024-01-02''\<rparr>] \<and>
   ''7'' \<notin> goalId ` set [\<lparr>goalId = ''1'', goalTitle = ''Laptop'', targetAmount = Num 100,
       currentAmount = Num 90, deadline = ''2025-01-01'', goalCategory = ''Tech''\<rparr>] \<and>
   deleteTransaction ''7'' [\<lparr>txId = ''1'', txTitle = ''Coffee'', txAmount = 5,
       txCategory = ''Food'', txType = Expense, txDate = ''2024-01-02''\<rparr>] =
     [\<lparr>txId = ''1'', txTitle = ''Coffee'', txAmount = 5,
       txCategory = ''Food'', txType = Expense, txDate = ''2024-01-02''\<rparr>] \<and>
   updateSavingsGoal ''7'' (Num 3) [\<lparr>goalId = ''1'', goalTitle = ''Laptop'',
       targetAmount = Num 100, currentAmount = Num 90, deadline = ''2025-01-01'',
       goalCategory = ''Tech''\<rparr>] =
     [\<lparr>goalId = ''1'', goalTitle = ''Laptop'', targetAmount = Num 100,
       currentAmount = Num 90, deadline = ''2025-01-01'', goalCategory = ''Tech''\<rparr>]"
  using delete_idempotent_absent_noop [of "''7''"
     "[\<lparr>txId = ''1'', txTitle = ''Coffee'', txAmount = 5,
       txCategory = ''Food'', txType = Expense, txDate = ''2024-01-02''\<rparr>]" Delete
     "[\<lparr>goalId = ''1'', goalTitle = ''Laptop'', targetAmount = Num 100,
       currentAmount = Num 90, deadline = ''2025-01-01'', goalCategory = ''Tech''\<rparr>]" "Num 3"]
  by simp


section \<open>Adding a goal\<close>

text \<open>
  What \<open>handleSubmit\<close> does to the list: with a target amount that \<open>parseFloat\<close> reads as a
  number \<open>x \<le> 0\<close> the list and the text fields are as before and a dialog is shown; and
  whenever the list changes, a goal whose current amount is \<open>0\<close> has been put at its head.
\<close>

lemma handleSubmit_rejects:
  assumes "parseFloat (formTargetAmount (formData s)) = Num x" and "x \<le> 0"
  shows "savingsGoals (handleSubmit parseFloat now s) = savingsGoals s"
    and "formData (handleSubmit parseFloat now s) = formData s"
    and "alerts (handleSubmit parseFloat now s) \<noteq> alerts s"
  using assms by (simp_all add: handleSubmit_def alert_def)

lemma handleSubmit_stores:
  "savingsGoals (handleSubmit parseFloat now s) = savingsGoals s \<or>
   (\<exists>goal. savingsGoals (handleSubmit parseFloat now s) = goal # savingsGoals s \<and>
      currentAmount goal = Num 0 \<and>
      targetAmount goal = parseFloat (formTargetAmount (formData s)) \<and>
      \<not> jsle (targetAmount goal) (Num 0))"
  by (simp add: handleSubmit_def alert_def addSavingsGoal_def)

text \<open>
  A goal that \<open>handleSubmit\<close> adds has a current amount that does not exceed its target
  amount, whatever \<open>parseFloat\<close> has read.
\<close>

lemma handleSubmit_never_exceeds:
  assumes "\<forall>goal\<in>set (savingsGoals s). \<not> jslt (targetAmount goal) (currentAmount goal)"
  shows "\<forall>goal\<in>set (savingsGoals (handleSubmit parseFloat now s)).
           \<not> jslt (targetAmount goal) (currentAmount goal)"
proof -
  have "\<not> jslt x (Num 0)" if "\<not> jsle x (Num 0)" for x
    using that by (cases x) auto
  with assms show ?thesis
    by (auto simp: handleSubmit_def alert_def addSavingsGoal_def)
qed

text \<open>
  C2. The claim wants a goal rejected when its target amount is not strictly positive.
  \<open>handleSubmit\<close> tests \<open>parseFloat(formData.targetAmount) <= 0\<close>, which is false for
  \<open>NaN\<close>: when the four fields are filled and the text of the target amount is not a number,
  the goal is put at the head of the list with the target amount \<open>NaN\<close>, which is not
  greater than \<open>0\<close>. The guard of the form for transactions, \<open>rejectsAmount\<close>, rejects the
  same text.
\<close>

theorem handleSubmit_accepts_NaN:
  assumes "formTitle (formData s) \<noteq> []" and "formTargetAmount (formData s) \<noteq> []"
    and "formDeadline (formData s) \<noteq> []" and "formCategory (formData s) \<noteq> []"
    and "parseFloat (formTargetAmount (formData s)) = NaN"
  shows "savingsGoals (handleSubmit parseFloat now s) =
           \<lparr>goalId = now, goalTitle = formTitle (formData s), targetAmount = NaN,
            currentAmount = Num 0, deadline = formDeadline (formData s),
            goalCategory = formCategory (formData s)\<rparr> # savingsGoals s \<and>
         \<not> jslt (Num 0) (targetAmount (hd (savingsGoals (handleSubmit parseFloat now s)))) \<and>
         rejectsAmount parseFloat (formTargetAmount (formData s))"
  using assms by (simp add: handleSubmit_def alert_def addSavingsGoal_def rejectsAmount_def)

theorem handleSubmit_accepts_NaN_witness:
  "savingsGoals (handleSubmit (\<lambda>t. if t = ''abc'' then NaN else Num 0) ''1762000000000''
      ((startSession \<lparr>items = Map.empty, outOfOrder = False\<rparr>)
         \<lparr>formData := \<lparr>formTitle = ''Car'', formTargetAmount = ''abc'',
              formDeadline = ''2026-12-31'', formCategory = ''Auto''\<rparr>\<rparr>)) =
     [\<lparr>goalId = ''1762000000000'', goalTitle = ''Car'', targetAmount = NaN,
       currentAmount = Num 0, deadline = ''2026-12-31'', goalCategory = ''Auto''\<rparr>]"
  using handleSubmit_accepts_NaN [of
      "(startSession \<lparr>items = Map.empty, outOfOrder = False\<rparr>)
         \<lparr>formData := \<lparr>formTitle = ''Car'', formTargetAmount = ''abc'',
              formDeadline = ''2026-12-31'', formCategory = ''Auto''\<rparr>\<rparr>"
      "\<lambda>t. if t = ''abc'' then NaN else Num 0" "''1762000000000''"]
  by (simp add: startSession_def)

section \<open>Progress of a goal: the formulas\<close>



section \<open>Persistence\<close>

text \<open>
  C9 as the claim states it: whenever the storage answers with a payload on which
  \<open>JSON.parse\<close> throws, \<open>loadSavingsGoals\<close> returns with an empty list and a dialog shown. This
  fails for the payload that is the empty string: the test \<open>if (storedGoals)\<close> takes it for
  nothing stored, \<open>JSON.parse\<close> is not called and no dialog is shown.
\<close>

theorem load_empty_payload_unreported:
  "\<not> (\<forall>jsonParse st payload error.
        \<not> outOfOrder st \<and> items st STORAGE_KEY = Some payload \<and>
        jsonParse payload = Inl error \<longrightarrow>
        (\<exists>s. loadSavingsGoals jsonParse (startSession st) = Inr s \<and>
             savingsGoals s = [] \<and> alerts s \<noteq> []))"
proof
  assume claim: "\<forall>jsonParse st payload error.
        \<not> outOfOrder st \<and> items st STORAGE_KEY = Some payload \<and>
        jsonParse payload = Inl error \<longrightarrow>
        (\<exists>s. loadSavingsGoals jsonParse (startSession st) = Inr s \<and>
             savingsGoals s = [] \<and> alerts s \<noteq> [])"
  have "\<exists>s. loadSavingsGoals (\<lambda>text. Inl SyntaxError)
          (startSession \<lparr>items = [STORAGE_KEY \<mapsto> []], outOfOrder = False\<rparr>) = Inr s \<and>
          savingsGoals s = [] \<and> alerts s \<noteq> []"
    using claim [rule_format, of "\<lparr>items = [STORAGE_KEY \<mapsto> []], outOfOrder = False\<rparr>" "[]"
        "\<lambda>text. Inl SyntaxError" SyntaxError]
    by simp
  then show False
    by (simp add: loadSavingsGoals_def loadBody_def getItem_def startSession_def)
qed

text \<open>
  C9, amended. At the start of a session the list is empty. When the storage answers and
  holds nothing under the key, or the empty string, \<open>loadSavingsGoals\<close> returns, the list is
  still empty, no dialog is shown and \<open>isLoading\<close> is false. When it holds a non-empty text
  on which \<open>JSON.parse\<close> throws, \<open>loadSavingsGoals\<close> returns as well, the list is still empty,
  \<open>isLoading\<close> is false, and the dialog \<open>Failed to load savings goals from storage\<close> has been
  shown.
\<close>

theorem load_on_session_start:
  "(\<not> outOfOrder st \<and> (items st STORAGE_KEY = None \<or> items st STORAGE_KEY = Some []) \<longrightarrow>
      loadSavingsGoals jsonParse (startSession st) =
        Inr ((startSession st)\<lparr>isLoading := False\<rparr>)) \<and>
   (\<forall>payload error.
      \<not> outOfOrder st \<and> items st STORAGE_KEY = Some payload \<and> payload \<noteq> [] \<and>
      jsonParse payload = Inl error \<longrightarrow>
      loadSavingsGoals jsonParse (startSession st) =
        Inr ((startSession st)
          \<lparr>isLoading := False,
           alerts := [(''Error'', ''Failed to load savings goals from storage'')]\<rparr>)) \<and>
   savingsGoals (startSession st) = []"
  by (auto simp: loadSavingsGoals_def loadBody_def getItem_def alert_def startSession_def)

theorem load_on_session_start_witness:
  "loadSavingsGoals (\<lambda>text. if text = ''[]'' then Inr [] else Inl SyntaxError)
     (startSession \<lparr>items = Map.empty, outOfOrder = False\<rparr>) =
     Inr \<lparr>savingsGoals = [], isLoading = False, formData = emptyForm,
          storage = \<lparr>items = Map.empty, outOfOrder = False\<rparr>, alerts = []\<rparr> \<and>
   loadSavingsGoals (\<lambda>text. if text = ''[]'' then Inr [] else Inl SyntaxError)
     (startSession \<lparr>items = [STORAGE_KEY \<mapsto> ''[{''], outOfOrder = False\<rparr>) =
     Inr \<lparr>savingsGoals = [], isLoading = False, formData = emptyForm,
          storage = \<lparr>items = [STORAGE_KEY \<mapsto> ''[{''], outOfOrder = False\<rparr>,
          alerts = [(''Error'', ''Failed to load savings goals from storage'')]\<rparr>"
  using load_on_session_start [of "\<lparr>items = Map.empty, outOfOrder = False\<rparr>"
      "\<lambda>text. if text = ''[]'' then Inr [] else Inl SyntaxError"]
    load_on_session_start [of "\<lparr>items = [STORAGE_KEY \<mapsto> ''[{''], outOfOrder = False\<rparr>"
      "\<lambda>text. if text = ''[]'' then Inr [] else Inl SyntaxError"]
  by (simp add: startSession_def)




section \<open>The pipeline of the list\<close>















text \<open>
  The sort stage returns the transactions it was given, in ascending order of the key,
  and keeps the order of transactions that have the same key.
\<close>

lemma sortStage_sorted_stable:
  "mset (sortStage getTime st txs) = mset txs"
  "sorted (map (sortKey getTime st) (sortStage getTime st txs))"
  "filter (\<lambda>t. sortKey getTime st t = k) (sortStage getTime st txs) =
     filter (\<lambda>t. sortKey getTime st t = k) txs"
  by (simp_all add: sortStage_def sort_key_stable)








section \<open>The store under the derived views\<close>

text \<open>
  With a query or a type filter, \<open>filter\<close> has made a new array before the sort, and the
  array of the provider is as it was.
\<close>

lemma store_kept_when_filtered:
  assumes "q \<noteq> [] \<or> ft \<noteq> AllTypes" and "r < fresh h"
  shows "cells (snd (processedTransactions getTime q ft st r h)) r = cells h r"
  using assms
  by (auto simp: processedTransactions_def arrayFilter_def arraySort_def Let_def)

text \<open>
  With the empty query and the filter \<open>all\<close>, which are the initial values of the screen,
  \<open>filtered\<close> is the array of the provider itself, and the sort reorders it.
\<close>

lemma store_sorted_when_unfiltered:
  "processedTransactions getTime [] AllTypes st r h =
     (r, h\<lparr>cells := (cells h)(r := sortBy (compareFn getTime st) (cells h r))\<rparr>)"
  by (simp add: processedTransactions_def arraySort_def)

text \<open>
  C3. The claim wants the list of the store, order included, to be the same after the
  derived views have been computed. With the empty query, the filter \<open>all\<close> and the sort
  \<open>highest\<close>, on a store that holds the coffee (5) before the salary (1000), the array of
  the store holds the salary before the coffee after \<open>processedTransactions\<close>.
\<close>

theorem processedTransactions_reorders_store:
  "cells twoTransactions 0 = [coffee ''Food'', salary ''Salary''] \<and>
   cells (snd (processedTransactions twoDays [] AllTypes Highest 0 twoTransactions)) 0 =
     [salary ''Salary'', coffee ''Food'']"
  by (simp add: store_sorted_when_unfiltered twoTransactions_def sortBy_def sortCompare_def
      coffee_def salary_def)

section \<open>Analytics: the totals\<close>

lemma foldl_amounts:
  "foldl (\<lambda>sum t. sum + txAmount t) a txs = a + (\<Sum>t\<leftarrow>txs. txAmount t)"
  by (induction txs arbitrary: a) auto

lemma categoryStep_apply:
  "categoryStep acc t c =
     (if txCategory t = c \<and> \<not> (acc c = None \<and> c \<in> set objectPrototype)
      then Some (addAmount (txType t) (txAmount t)
             (case acc c of None \<Rightarrow> \<lparr>income = 0, expense = 0\<rparr> | Some stat \<Rightarrow> stat))
      else acc c)"
  by (auto simp: categoryStep_def getProperty_def Let_def split: option.splits)

text \<open>
  The accumulator after a list of transactions. A name that every object inherits never
  becomes a property of the accumulator. Any other category has an entry when it had one
  or a transaction of the list has the category, and the entry is the one it had (or
  zeros) plus the sums of the list.
\<close>

lemma foldl_categoryStep:
  "foldl categoryStep acc txs c =
     (if acc c = None \<and> c \<in> set objectPrototype then None
      else if c \<in> txCategory ` set txs \<or> acc c \<noteq> None
      then Some
        \<lparr>income =
           income (case acc c of None \<Rightarrow> \<lparr>income = 0, expense = 0\<rparr> | Some stat \<Rightarrow> stat)
             + income (sumsOf c txs),
         expense =
           expense (case acc c of None \<Rightarrow> \<lparr>income = 0, expense = 0\<rparr> | Some stat \<Rightarrow> stat)
             + expense (sumsOf c txs)\<rparr>
      else None)"
proof (induction txs arbitrary: acc)
  case Nil
  then show ?case by (auto simp: sumsOf_def)
next
  case (Cons t txs)
  show ?case
    unfolding foldl.simps Cons.IH
    by (cases "txType t")
      (auto simp: categoryStep_apply addAmount_def sumsOf_def split: option.splits)
qed

text \<open>
  What the claim says holds of the totals for every list, and of \<open>categoryStats\<close> for every
  category that is not a name that every object inherits: the totals are the sums of the
  amounts of the income and of the expense transactions, the balance is their difference,
  the count is the length of the list, and such a category has an entry exactly when a
  transaction has it, with the sums of the income and of the expense amounts of the
  category over the whole list. For an income of 100, an expense of 40 in a category
  other than \<open>Food\<close> and an expense of 10 in \<open>Food\<close>: total income 100, total expense 50,
  balance 50, and expense 10 for \<open>Food\<close>.
\<close>

lemma analytics_ordinary_categories:
  "totalIncome (analytics txs) = (\<Sum>t\<leftarrow>filter (\<lambda>t. txType t = Income) txs. txAmount t) \<and>
   totalExpense (analytics txs) = (\<Sum>t\<leftarrow>filter (\<lambda>t. txType t = Expense) txs. txAmount t) \<and>
   balance (analytics txs) = totalIncome (analytics txs) - totalExpense (analytics txs) \<and>
   transactionCount (analytics txs) = length txs \<and>
   (\<forall>c. c \<notin> set objectPrototype \<longrightarrow>
      categoryStats (analytics txs) c =
      (if c \<in> txCategory ` set txs
       then Some
         \<lparr>income = (\<Sum>t\<leftarrow>filter (\<lambda>t. txCategory t = c \<and> txType t = Income) txs. txAmount t),
          expense = (\<Sum>t\<leftarrow>filter (\<lambda>t. txCategory t = c \<and> txType t = Expense) txs. txAmount t)\<rparr>
       else None)) \<and>
   (\<forall>t1 t2 t3.
      txs = [t1, t2, t3] \<and>
      txAmount t1 = 100 \<and> txType t1 = Income \<and>
      txAmount t2 = 40 \<and> txType t2 = Expense \<and> txCategory t2 \<noteq> ''Food'' \<and>
      txAmount t3 = 10 \<and> txType t3 = Expense \<and> txCategory t3 = ''Food'' \<longrightarrow>
      totalIncome (analytics txs) = 100 \<and> totalExpense (analytics txs) = 50 \<and>
      balance (analytics txs) = 50 \<and>
      map_option expense (categoryStats (analytics txs) ''Food'') = Some 10)"
proof -
  have totals:
    "totalIncome (analytics txs) = (\<Sum>t\<leftarrow>filter (\<lambda>t. txType t = Income) txs. txAmount t)"
    "totalExpense (analytics txs) = (\<Sum>t\<leftarrow>filter (\<lambda>t. txType t = Expense) txs. txAmount t)"
    "balance (analytics txs) = totalIncome (analytics txs) - totalExpense (analytics txs)"
    "transactionCount (analytics txs) = length txs"
    by (simp_all add: analytics_def Let_def foldl_amounts)
  have stats: "categoryStats (analytics txs) c =
      (if c \<in> txCategory ` set txs
       then Some
         \<lparr>income = (\<Sum>t\<leftarrow>filter (\<lambda>t. txCategory t = c \<and> txType t = Income) txs. txAmount t),
          expense = (\<Sum>t\<leftarrow>filter (\<lambda>t. txCategory t = c \<and> txType t = Expense) txs. txAmount t)\<rparr>
       else None)" if "c \<notin> set objectPrototype" for c
    using that by (simp add: analytics_def Let_def foldl_categoryStep sumsOf_def)
  have food: "''Food'' \<notin> set objectPrototype"
    by (simp add: objectPrototype_def)
  have example: "totalIncome (analytics txs) = 100 \<and> totalExpense (analytics txs) = 50 \<and>
      balance (analytics txs) = 50 \<and>
      map_option expense (categoryStats (analytics txs) ''Food'') = Some 10"
    if "txs = [t1, t2, t3] \<and>
      txAmount t1 = 100 \<and> txType t1 = Income \<and>
      txAmount t2 = 40 \<and> txType t2 = Expense \<and> txCategory t2 \<noteq> ''Food'' \<and>
      txAmount t3 = 10 \<and> txType t3 = Expense \<and> txCategory t3 = ''Food''" for t1 t2 t3
    unfolding totals stats [OF food] using that by simp
  from totals stats example show ?thesis
    by blast
qed


end
